theory Spec2Isabelle
  imports Complex_Main "HOL-Library.Sublist"
begin

section \<open>National Levee Database notebooks\<close>

text \<open>
  The repository is two notebooks. \<^verbatim>\<open>1_NLD_Bulk_Download\<close> defines
  \<^verbatim>\<open>featurelayer2shapefile_ogr\<close> and \<^verbatim>\<open>row_func\<close> and applies the latter to
  every row of the layer table. \<^verbatim>\<open>2_NLD_Clip_and_Vis\<close> computes
  \<^verbatim>\<open>boundary_geom\<close>, \<^verbatim>\<open>clip_possible_gdf\<close> and \<^verbatim>\<open>clip_exact_gdf\<close> in three
  top-level statements.

  The notebooks call GDAL/OGR, werkzeug, pandas, geopandas and shapely. What those
  libraries compute is not code of the notebooks: the remote service behind
  \<^verbatim>\<open>ogr.Open\<close>, the shapefile driver and the disk it writes to,
  \<^verbatim>\<open>secure_filename\<close>, the spatial index query and the \<^verbatim>\<open>within\<close> predicate are
  arguments of the definitions below, and what a theorem needs of them is a
  hypothesis of that theorem. The order of the notebooks' own statements, their
  branches, \<^verbatim>\<open>os.path.join\<close> and pandas' positional indexing are modelled directly,
  with their failures as values.
\<close>

subsection \<open>Errors\<close>

text \<open>
  \<open>AttributeError\<close>, \<open>IndexError\<close> and \<open>TypeError\<close> are the Python exceptions the
  notebooks' statements can raise (a method call on \<^verbatim>\<open>None\<close>, a positional index
  out of bounds, \<^verbatim>\<open>within\<close> applied to \<^verbatim>\<open>None\<close>). \<open>FetchError\<close> (with a page
  offset), \<open>ParseError\<close> and \<open>InvalidBoundaryError\<close> are the classes of the
  specification's error taxonomy; no statement of the notebooks raises them, they
  are in the type so that statements about them can be written.
\<close>

datatype py_error =
    AttributeError
  | IndexError
  | TypeError
  | FetchError nat
  | ParseError
  | InvalidBoundaryError

subsection \<open>Notebook 1: the world the download acts on\<close>

text \<open>
  An OGR layer is the sequence of its features; a data source is the sequence of its
  layers.
\<close>

type_synonym 'f layer = "'f list"
type_synonym 'f data_source = "'f layer list"

text \<open>
  The local disk is of an arbitrary type \<open>'d\<close>. The notebook reaches it through four
  calls only: \<^verbatim>\<open>os.path.exists(path)\<close>, \<^verbatim>\<open>driver_out.DeleteDataSource(path)\<close> (its
  return code is not looked at), \<^verbatim>\<open>driver_out.CreateDataSource(path)\<close> and
  \<^verbatim>\<open>ds_out.CopyLayer(layer, name)\<close> on the data source created for \<open>path\<close>; the last
  two answer \<open>False\<close> where the Python call returns \<^verbatim>\<open>None\<close>. Releasing the data
  source (\<^verbatim>\<open>ds_out = None\<close>), which flushes it, is part of \<open>copy_layer\<close>.
\<close>

record ('d, 'f) shapefile_driver =
  exists_at :: "'d \<Rightarrow> string \<Rightarrow> bool"
  delete_ds :: "string \<Rightarrow> 'd \<Rightarrow> 'd"
  create_ds :: "string \<Rightarrow> 'd \<Rightarrow> bool \<times> 'd"
  copy_layer :: "string \<Rightarrow> 'f layer \<Rightarrow> string \<Rightarrow> 'd \<Rightarrow> bool \<times> 'd"

text \<open>The calls that leave the notebook, in the order they are made.\<close>

datatype call =
    OgrOpen string
  | DeleteDataSource string
  | CreateDataSource string
  | CopyLayer string string

record 'd world =
  disk :: 'd
  calls :: "call list"

definition log_call :: "call \<Rightarrow> 'd world \<Rightarrow> 'd world" where
  "log_call c w = w\<lparr>calls := calls w @ [c]\<rparr>"

definition os_path_exists :: "('d, 'f) shapefile_driver \<Rightarrow> 'd world \<Rightarrow> string \<Rightarrow> bool" where
  "os_path_exists drv w path = exists_at drv (disk w) path"

definition driver_DeleteDataSource :: "('d, 'f) shapefile_driver \<Rightarrow> string \<Rightarrow> 'd world \<Rightarrow> 'd world" where
  "driver_DeleteDataSource drv path w =
     (log_call (DeleteDataSource path) w)\<lparr>disk := delete_ds drv path (disk w)\<rparr>"

definition driver_CreateDataSource ::
  "('d, 'f) shapefile_driver \<Rightarrow> string \<Rightarrow> 'd world \<Rightarrow> bool \<times> 'd world" where
  "driver_CreateDataSource drv path w =
     (let (created, d) = create_ds drv path (disk w)
      in (created, (log_call (CreateDataSource path) w)\<lparr>disk := d\<rparr>))"

definition ds_CopyLayer ::
  "('d, 'f) shapefile_driver \<Rightarrow> string \<Rightarrow> 'f layer \<Rightarrow> string \<Rightarrow> 'd world \<Rightarrow> bool \<times> 'd world" where
  "ds_CopyLayer drv path layer name w =
     (let (copied, d) = copy_layer drv path layer name (disk w)
      in (copied, (log_call (CopyLayer path name) w)\<lparr>disk := d\<rparr>))"

text \<open>\<^verbatim>\<open>ds.GetLayerByIndex(0)\<close>: \<^verbatim>\<open>None\<close> when the data source has no layer.\<close>

definition GetLayerByIndex0 :: "'f data_source \<Rightarrow> 'f layer option" where
  "GetLayerByIndex0 ds = (case ds of [] \<Rightarrow> None | l # _ \<Rightarrow> Some l)"

subsection \<open>Notebook 1: \<^verbatim>\<open>featurelayer2shapefile_ogr\<close>\<close>

text \<open>
  \<^verbatim>\<open>query_url = '{}/query/?where=1+%3D+1&outfields=*&f=json&resultRecordCount=1000&orderByFields=OBJECTID+ASC'.format(featurelayer_url)\<close>
\<close>

definition query_url :: "string \<Rightarrow> string" where
  "query_url featurelayer_url =
     featurelayer_url @ ''/query/?where=1+%3D+1&outfields=*&f=json&resultRecordCount=1000&orderByFields=OBJECTID+ASC''"

text \<open>
  \<open>ogr_Open\<close> is the library call \<^verbatim>\<open>ogr.Open\<close> together with the remote service: the
  data source it assembles for a URL (the library pages through the service by
  itself), or \<^verbatim>\<open>None\<close> when it cannot open it. \<^verbatim>\<open>GetFeatureCount\<close> and the
  \<^verbatim>\<open>print\<close> statements only report and are left out; a method call on \<^verbatim>\<open>None\<close>
  raises \<^verbatim>\<open>AttributeError\<close>; an exception leaves the world as it was when it was
  raised.
\<close>

definition featurelayer2shapefile_ogr ::
  "('d, 'f) shapefile_driver \<Rightarrow> (string \<Rightarrow> 'f data_source option) \<Rightarrow> string \<Rightarrow> string \<Rightarrow>
     'd world \<Rightarrow> (py_error + unit) \<times> 'd world" where
  "featurelayer2shapefile_ogr drv ogr_Open featurelayer_url shapefile_path w =
     (let w1 = log_call (OgrOpen (query_url featurelayer_url)) w in
      case ogr_Open (query_url featurelayer_url) of
        None \<Rightarrow> (Inl AttributeError, w1)
      | Some ds \<Rightarrow>
         (case GetLayerByIndex0 ds of
            None \<Rightarrow> (Inl AttributeError, w1)
          | Some layer \<Rightarrow>
             (let w2 = (if os_path_exists drv w1 shapefile_path
                        then driver_DeleteDataSource drv shapefile_path w1 else w1);
                  (created, w3) = driver_CreateDataSource drv shapefile_path w2
              in if \<not> created then (Inl AttributeError, w3)
                 else (let (copied, w4) = ds_CopyLayer drv shapefile_path layer ''layer'' w3
                       in if \<not> copied then (Inl AttributeError, w4) else (Inr (), w4)))))"

subsection \<open>Notebook 1: \<^verbatim>\<open>row_func\<close> and the loop over the layer table\<close>

text \<open>A row of the layer table: the columns \<^verbatim>\<open>row_func\<close> reads.\<close>

record layer_row =
  layer_name :: string
  layer_id :: int

text \<open>
  The global \<^verbatim>\<open>id_list\<close>: \<^verbatim>\<open>None\<close>, a Python list of layer ids, or an object of
  another type (the notebook suggests a \<^verbatim>\<open>range\<close>).
\<close>

datatype id_list_value = IdNone | IdList "int list" | IdOther

text \<open>
  The globals \<^verbatim>\<open>row_func\<close> reads from the notebook's scope, and the library function
  \<^verbatim>\<open>secure_filename\<close> of werkzeug.
\<close>

record notebook_globals =
  url_feature_server :: string
  download_folder :: string
  id_list :: id_list_value
  secure_filename :: "string \<Rightarrow> string"

text \<open>\<^verbatim>\<open>str\<close> of an integer, as \<^verbatim>\<open>'{}'.format(id)\<close> prints it.\<close>

definition digit_char :: "nat \<Rightarrow> char" where
  "digit_char d = char_of (48 + d)"

fun str_nat :: "nat \<Rightarrow> string" where
  "str_nat n = (if n < 10 then [digit_char n] else str_nat (n div 10) @ [digit_char (n mod 10)])"

definition str_int :: "int \<Rightarrow> string" where
  "str_int i = (if i < 0 then CHR ''-'' # str_nat (nat (- i)) else str_nat (nat i))"

text \<open>
  \<^verbatim>\<open>os.path.join(a, b)\<close> of \<^verbatim>\<open>posixpath\<close>: an absolute \<open>b\<close> replaces \<open>a\<close>; otherwise
  the two are put together with exactly one separator between them.
\<close>

definition os_path_join :: "string \<Rightarrow> string \<Rightarrow> string" where
  "os_path_join a b =
     (if b \<noteq> [] \<and> hd b = CHR ''/'' then b
      else if a = [] \<or> last a = CHR ''/'' then a @ b
      else a @ ''/'' @ b)"

text \<open>\<^verbatim>\<open>id_list is not None and type(id_list) is list\<close>, then \<^verbatim>\<open>int(id) not in id_list\<close>.\<close>

definition skipped :: "id_list_value \<Rightarrow> int \<Rightarrow> bool" where
  "skipped il i = (case il of IdList xs \<Rightarrow> i \<notin> set xs | _ \<Rightarrow> False)"

definition layer_url :: "notebook_globals \<Rightarrow> int \<Rightarrow> string" where
  "layer_url g i = url_feature_server g @ ''/'' @ str_int i @ ''/''"

definition row_func ::
  "('d, 'f) shapefile_driver \<Rightarrow> (string \<Rightarrow> 'f data_source option) \<Rightarrow> notebook_globals \<Rightarrow>
     layer_row \<Rightarrow> 'd world \<Rightarrow> (py_error + unit) \<times> 'd world" where
  "row_func drv ogr_Open g row w =
     (let name = layer_name row; i = layer_id row in
      if skipped (id_list g) i then (Inr (), w)
      else
        (let name_safe = secure_filename g name;
             shp = os_path_join (download_folder g) (name_safe @ ''.shp'');
             featurelayer_url = url_feature_server g @ ''/'' @ str_int i @ ''/''
         in featurelayer2shapefile_ogr drv ogr_Open featurelayer_url shp w))"

text \<open>
  \<^verbatim>\<open>df.apply(row_func, axis=1)\<close>: the rows in table order; an exception ends the loop.
\<close>

fun df_apply ::
  "('d, 'f) shapefile_driver \<Rightarrow> (string \<Rightarrow> 'f data_source option) \<Rightarrow> notebook_globals \<Rightarrow>
     layer_row list \<Rightarrow> 'd world \<Rightarrow> (py_error + unit) \<times> 'd world" where
  "df_apply drv ogr_Open g [] w = (Inr (), w)"
| "df_apply drv ogr_Open g (row # rows) w =
     (case row_func drv ogr_Open g row w of
        (Inl e, w') \<Rightarrow> (Inl e, w')
      | (Inr u, w') \<Rightarrow> df_apply drv ogr_Open g rows w')"

subsection \<open>Reading the call log\<close>

text \<open>The URLs handed to \<^verbatim>\<open>ogr.Open\<close>, and the path a driver call acts on.\<close>

fun requests_of :: "call list \<Rightarrow> string list" where
  "requests_of [] = []"
| "requests_of (OgrOpen url # cs) = url # requests_of cs"
| "requests_of (c # cs) = requests_of cs"

definition requests :: "'d world \<Rightarrow> string list" where
  "requests w = requests_of (calls w)"

fun call_paths :: "call list \<Rightarrow> string list" where
  "call_paths [] = []"
| "call_paths (OgrOpen url # cs) = call_paths cs"
| "call_paths (DeleteDataSource p # cs) = p # call_paths cs"
| "call_paths (CreateDataSource p # cs) = p # call_paths cs"
| "call_paths (CopyLayer p n # cs) = p # call_paths cs"

text \<open>The calls made between two worlds.\<close>

definition new_calls :: "'d world \<Rightarrow> 'd world \<Rightarrow> call list" where
  "new_calls w w' = drop (length (calls w)) (calls w')"

text \<open>The queries the loop issues when no download fails: one per row that is not skipped.\<close>

definition downloads :: "notebook_globals \<Rightarrow> layer_row list \<Rightarrow> string list" where
  "downloads g rows =
     map (\<lambda>row. query_url (layer_url g (layer_id row)))
       (filter (\<lambda>row. \<not> skipped (id_list g) (layer_id row)) rows)"

text \<open>
  The driver calls of one download whose fetch yields a layer, on the disk \<open>d\<close>: the
  deletion when the path exists, the creation, and the copy when the creation did not
  return \<^verbatim>\<open>None\<close>.
\<close>

definition driver_calls :: "('d, 'f) shapefile_driver \<Rightarrow> string \<Rightarrow> 'd \<Rightarrow> call list" where
  "driver_calls drv path d =
     (if exists_at drv d path then [DeleteDataSource path] else []) @
     CreateDataSource path #
     (if fst (create_ds drv path (if exists_at drv d path then delete_ds drv path d else d))
      then [CopyLayer path ''layer''] else [])"

subsection \<open>Reading a query string\<close>

text \<open>
  The parameters of a URL's query string: split at \<open>&\<close>, each part split at its first
  \<open>=\<close>. \<open>form_decode\<close> undoes the form encoding of a value (\<open>+\<close> is a space,
  \<open>%XY\<close> the character with hexadecimal code \<open>XY\<close>).
\<close>

fun split_on :: "char \<Rightarrow> string \<Rightarrow> string list" where
  "split_on c [] = [[]]"
| "split_on c (x # xs) =
     (if x = c then [] # split_on c xs
      else (case split_on c xs of [] \<Rightarrow> [[x]] | p # ps \<Rightarrow> (x # p) # ps))"

definition key_value :: "string \<Rightarrow> string \<times> string" where
  "key_value s = (takeWhile (\<lambda>c. c \<noteq> CHR ''='') s, drop 1 (dropWhile (\<lambda>c. c \<noteq> CHR ''='') s))"

definition url_params :: "string \<Rightarrow> (string \<times> string) list" where
  "url_params qs = map key_value (split_on CHR ''&'' qs)"

definition hex_val :: "char \<Rightarrow> nat" where
  "hex_val c =
     (let n = of_char c in
      if 48 \<le> n \<and> n \<le> 57 then n - 48
      else if 65 \<le> n \<and> n \<le> 70 then n - 55
      else if 97 \<le> n \<and> n \<le> 102 then n - 87
      else 0)"

fun form_decode :: "string \<Rightarrow> string" where
  "form_decode [] = []"
| "form_decode (c # cs) =
     (if c = CHR ''+'' then CHR '' '' # form_decode cs
      else if c = CHR ''%'' then
        (case cs of
           h # l # rest \<Rightarrow> char_of (16 * hex_val h + hex_val l) # form_decode rest
         | _ \<Rightarrow> c # form_decode cs)
      else c # form_decode cs)"

subsection \<open>Notebook 2: the data\<close>

text \<open>
  A row of a GeoDataFrame: its attribute columns and its geometry. The geometry type
  \<open>'g\<close> is shapely's and stays abstract; \<open>bounds\<close> (the bounding box of a geometry)
  and \<open>geom_within\<close> (shapely's \<^verbatim>\<open>within\<close>) are arguments wherever they are needed.
  The feature table is a \<open>'g gdf\<close>: each of its rows has a geometry. The boundary
  table is a \<open>'g option gdf\<close>: a row of it may have no geometry (\<^verbatim>\<open>None\<close>).
\<close>

record 'g feature =
  attributes :: "(string \<times> string) list"
  geometry :: 'g

type_synonym 'g gdf = "'g feature list"

record bbox =
  minx :: real
  miny :: real
  maxx :: real
  maxy :: real

definition bbox_intersects :: "bbox \<Rightarrow> bbox \<Rightarrow> bool" where
  "bbox_intersects a b =
     (minx a \<le> maxx b \<and> minx b \<le> maxx a \<and> miny a \<le> maxy b \<and> miny b \<le> maxy a)"

text \<open>
  \<^verbatim>\<open>df.iloc[i]\<close> and \<^verbatim>\<open>df.iloc[positions]\<close>: a negative position counts from the end,
  a position out of bounds raises \<^verbatim>\<open>IndexError\<close>; the rows come in the order of the
  positions.
\<close>

definition iloc :: "'a list \<Rightarrow> int \<Rightarrow> py_error + 'a" where
  "iloc df i =
     (if 0 \<le> i \<and> i < int (length df) then Inr (df ! nat i)
      else if i < 0 \<and> - int (length df) \<le> i then Inr (df ! nat (int (length df) + i))
      else Inl IndexError)"

fun iloc_take :: "'a list \<Rightarrow> int list \<Rightarrow> py_error + 'a list" where
  "iloc_take df [] = Inr []"
| "iloc_take df (i # positions) =
     (case iloc df i of
        Inl e \<Rightarrow> Inl e
      | Inr row \<Rightarrow>
         (case iloc_take df positions of
            Inl e \<Rightarrow> Inl e
          | Inr rows \<Rightarrow> Inr (row # rows)))"

subsection \<open>Notebook 2: the two passes\<close>

text \<open>\<^verbatim>\<open>boundary_geom = boundary_gdf.iloc[0].geometry\<close>\<close>

definition boundary_geom :: "'g option gdf \<Rightarrow> py_error + 'g option" where
  "boundary_geom boundary_gdf =
     (case iloc boundary_gdf 0 of Inl e \<Rightarrow> Inl e | Inr row \<Rightarrow> Inr (geometry row))"

text \<open>
  \<^verbatim>\<open>clip_possible_gdf = features_gdf.iloc[features_gdf.sindex.query(boundary_geom)]\<close>,
  with the index query \<open>sindex_query\<close> an argument: the positions it returns for the
  table and the boundary geometry, which may be \<^verbatim>\<open>None\<close>.
\<close>

definition clip_possible_gdf ::
  "('g gdf \<Rightarrow> 'g option \<Rightarrow> int list) \<Rightarrow> 'g gdf \<Rightarrow> 'g option \<Rightarrow> py_error + 'g gdf" where
  "clip_possible_gdf sindex_query features_gdf bgeom =
     iloc_take features_gdf (sindex_query features_gdf bgeom)"

text \<open>
  \<^verbatim>\<open>clip_exact_gdf = clip_possible_gdf[clip_possible_gdf.geometry.within(boundary_geom)]\<close>:
  \<^verbatim>\<open>within\<close> raises \<^verbatim>\<open>TypeError\<close> when its argument is \<^verbatim>\<open>None\<close>, also on a table
  without rows; otherwise the result holds the rows whose entry in the boolean mask
  is true, in the order of the table.
\<close>

definition clip_exact_gdf :: "('g \<Rightarrow> 'g \<Rightarrow> bool) \<Rightarrow> 'g gdf \<Rightarrow> 'g option \<Rightarrow> py_error + 'g gdf" where
  "clip_exact_gdf geom_within possible bgeom =
     (case bgeom of
        None \<Rightarrow> Inl TypeError
      | Some b \<Rightarrow> Inr (filter (\<lambda>row. geom_within (geometry row) b) possible))"

text \<open>The three statements in sequence: the specification's \<open>clip\<close>.\<close>

definition clip ::
  "('g gdf \<Rightarrow> 'g option \<Rightarrow> int list) \<Rightarrow> ('g \<Rightarrow> 'g \<Rightarrow> bool) \<Rightarrow> 'g gdf \<Rightarrow> 'g option gdf \<Rightarrow>
     py_error + 'g gdf" where
  "clip sindex_query geom_within features_gdf boundary_gdf =
     (case boundary_geom boundary_gdf of
        Inl e \<Rightarrow> Inl e
      | Inr bgeom \<Rightarrow>
         (case clip_possible_gdf sindex_query features_gdf bgeom of
            Inl e \<Rightarrow> Inl e
          | Inr possible \<Rightarrow> clip_exact_gdf geom_within possible bgeom))"

text \<open>
  What geopandas documents for \<^verbatim>\<open>sindex.query(geometry)\<close> without a predicate: the
  positions of the rows whose bounding box intersects the bounding box of the
  geometry, each once, in no guaranteed order (\<^verbatim>\<open>sort=False\<close> is the default).
\<close>

definition candidate_positions :: "('g \<Rightarrow> bbox) \<Rightarrow> 'g gdf \<Rightarrow> 'g \<Rightarrow> nat list" where
  "candidate_positions bounds features_gdf b =
     filter (\<lambda>i. bbox_intersects (bounds (geometry (features_gdf ! i))) (bounds b))
       [0 ..< length features_gdf]"

definition sindex_query_ok :: "('g \<Rightarrow> bbox) \<Rightarrow> 'g gdf \<Rightarrow> 'g \<Rightarrow> int list \<Rightarrow> bool" where
  "sindex_query_ok bounds features_gdf b positions =
     (distinct positions \<and>
      set positions = set (map int (candidate_positions bounds features_gdf b)))"

text \<open>
  What shapely documents for \<^verbatim>\<open>a.within(b)\<close>, the relation of the DE-9IM model: no
  point of \<open>a\<close> lies outside \<open>b\<close>, and the interiors of \<open>a\<close> and \<open>b\<close> have a point in
  common. \<open>pts\<close> gives all points of a geometry (interior and boundary), \<open>inner\<close>
  the points of its interior. Two geometries intersect when they share a point, and
  touch when they share a point but no interior point.
\<close>

type_synonym point = "real \<times> real"

definition de9im_within :: "('g \<Rightarrow> point set) \<Rightarrow> ('g \<Rightarrow> point set) \<Rightarrow> 'g \<Rightarrow> 'g \<Rightarrow> bool" where
  "de9im_within pts inner a b = (pts a \<subseteq> pts b \<and> inner a \<inter> inner b \<noteq> {})"

definition de9im_intersects :: "('g \<Rightarrow> point set) \<Rightarrow> 'g \<Rightarrow> 'g \<Rightarrow> bool" where
  "de9im_intersects pts a b = (pts a \<inter> pts b \<noteq> {})"

definition de9im_touches :: "('g \<Rightarrow> point set) \<Rightarrow> ('g \<Rightarrow> point set) \<Rightarrow> 'g \<Rightarrow> 'g \<Rightarrow> bool" where
  "de9im_touches pts inner a b = (pts a \<inter> pts b \<noteq> {} \<and> inner a \<inter> inner b = {})"

subsection \<open>Example inputs\<close>

text \<open>
  A service with one layer of three features behind the query URL of layer 4, and
  nothing anywhere else; a stand-in for \<^verbatim>\<open>secure_filename\<close> that replaces spaces.
\<close>

definition example_service :: "string \<Rightarrow> nat data_source option" where
  "example_service url =
     (if url = query_url ''https://host/FeatureServer//4/'' then Some [[10, 11, 12]] else None)"

definition unreachable_service :: "string \<Rightarrow> nat data_source option" where
  "unreachable_service url = None"

definition example_secure_filename :: "string \<Rightarrow> string" where
  "example_secure_filename name = map (\<lambda>c. if c = CHR '' '' then CHR ''_'' else c) name"

definition example_globals :: notebook_globals where
  "example_globals =
     \<lparr>url_feature_server = ''https://host/FeatureServer/'',
      download_folder = ''/work/download'',
      id_list = IdList [4],
      secure_filename = example_secure_filename\<rparr>"

definition row4 :: layer_row where
  "row4 = \<lparr>layer_name = ''Leveed Areas'', layer_id = 4\<rparr>"

definition row5 :: layer_row where
  "row5 = \<lparr>layer_name = ''Levee Stations'', layer_id = 5\<rparr>"

text \<open>
  An example disk for targets named \<^verbatim>\<open>*.shp\<close>: regular files by path, each a
  shapefile with its layers or some other file, and the folders that exist. Deleting
  removes the file at a \<^verbatim>\<open>*.shp\<close> path whatever it holds; creating answers
  \<^verbatim>\<open>None\<close> when a file is in the way and writes nothing otherwise; copying a layer
  writes the shapefile when the folder of the path exists and answers \<^verbatim>\<open>None\<close> when
  it does not. \<open>stored\<close> gives the layers a reader finds at a path.
\<close>

datatype 'f node = ShapefileDS "'f data_source" | OtherFile

record 'f example_disk =
  nodes :: "string \<rightharpoonup> 'f node"
  folders :: "string list"

definition parent_folder :: "string \<Rightarrow> string" where
  "parent_folder path = rev (drop 1 (dropWhile (\<lambda>c. c \<noteq> CHR ''/'') (rev path)))"

definition shp_named :: "string \<Rightarrow> bool" where
  "shp_named path = (drop (length path - 4) path = ''.shp'')"

definition stored :: "'f example_disk \<Rightarrow> string \<Rightarrow> 'f layer list" where
  "stored d path = (case nodes d path of Some (ShapefileDS ls) \<Rightarrow> ls | _ \<Rightarrow> [])"

definition example_exists :: "'f example_disk \<Rightarrow> string \<Rightarrow> bool" where
  "example_exists d path = (nodes d path \<noteq> None)"

definition example_delete :: "string \<Rightarrow> 'f example_disk \<Rightarrow> 'f example_disk" where
  "example_delete path d = (if shp_named path then d\<lparr>nodes := (nodes d)(path := None)\<rparr> else d)"

definition example_create :: "string \<Rightarrow> 'f example_disk \<Rightarrow> bool \<times> 'f example_disk" where
  "example_create path d = (nodes d path = None, d)"

definition example_copy :: "string \<Rightarrow> 'f layer \<Rightarrow> string \<Rightarrow> 'f example_disk \<Rightarrow> bool \<times> 'f example_disk" where
  "example_copy path layer name d =
     (if parent_folder path \<in> set (folders d)
      then (True, d\<lparr>nodes := (nodes d)(path \<mapsto> ShapefileDS (stored d path @ [layer]))\<rparr>)
      else (False, d))"

definition example_driver :: "('f example_disk, 'f) shapefile_driver" where
  "example_driver =
     \<lparr>exists_at = example_exists, delete_ds = example_delete,
      create_ds = example_create, copy_layer = example_copy\<rparr>"

text \<open>
  A world that already holds a shapefile at the target path, one that holds another
  kind of file there, and one without the download folder.
\<close>

definition example_world :: "nat example_disk world" where
  "example_world =
     \<lparr>disk = \<lparr>nodes = [''/work/download/Leveed_Areas.shp'' \<mapsto> ShapefileDS [[7]]],
              folders = [''/work/download'']\<rparr>,
      calls = []\<rparr>"

definition other_file_world :: "nat example_disk world" where
  "other_file_world =
     \<lparr>disk = \<lparr>nodes = [''/work/download/Leveed_Areas.shp'' \<mapsto> OtherFile],
              folders = [''/work/download'']\<rparr>,
      calls = []\<rparr>"

definition no_folder_world :: "nat example_disk world" where
  "no_folder_world = \<lparr>disk = \<lparr>nodes = Map.empty, folders = []\<rparr>, calls = []\<rparr>"

text \<open>
  Example geometries: axis-aligned boxes with their points and interior points. A
  box is within another when it has an interior and lies in the other box, which is
  the DE-9IM relation on boxes. Three features, the third one reaching over the
  edge of the boundary, and a fourth that lies in the boundary and shares a piece of
  its left edge; a boundary of zero area, a boundary row without geometry and a
  boundary file without rows; an index that returns the positions in descending
  order, one that returns them in ascending order, and one for a table of a single
  row.
\<close>

definition box_pts :: "bbox \<Rightarrow> point set" where
  "box_pts a = {(x, y). minx a \<le> x \<and> x \<le> maxx a \<and> miny a \<le> y \<and> y \<le> maxy a}"

definition box_inner :: "bbox \<Rightarrow> point set" where
  "box_inner a = {(x, y). minx a < x \<and> x < maxx a \<and> miny a < y \<and> y < maxy a}"

definition box_within :: "bbox \<Rightarrow> bbox \<Rightarrow> bool" where
  "box_within a b =
     (minx a < maxx a \<and> miny a < maxy a \<and>
      minx b \<le> minx a \<and> maxx a \<le> maxx b \<and> miny b \<le> miny a \<and> maxy a \<le> maxy b)"

definition box_bounds :: "bbox \<Rightarrow> bbox" where
  "box_bounds a = a"

definition feature_a :: "bbox feature" where
  "feature_a = \<lparr>attributes = [(''OBJECTID'', ''1'')],
                geometry = \<lparr>minx = 1, miny = 1, maxx = 2, maxy = 2\<rparr>\<rparr>"

definition feature_b :: "bbox feature" where
  "feature_b = \<lparr>attributes = [(''OBJECTID'', ''2'')],
                geometry = \<lparr>minx = 3, miny = 3, maxx = 4, maxy = 4\<rparr>\<rparr>"

definition feature_c :: "bbox feature" where
  "feature_c = \<lparr>attributes = [(''OBJECTID'', ''3'')],
                geometry = \<lparr>minx = 9, miny = 9, maxx = 12, maxy = 12\<rparr>\<rparr>"

definition feature_t :: "bbox feature" where
  "feature_t = \<lparr>attributes = [(''OBJECTID'', ''4'')],
                geometry = \<lparr>minx = 0, miny = 4, maxx = 2, maxy = 6\<rparr>\<rparr>"

definition boundary_box :: bbox where
  "boundary_box = \<lparr>minx = 0, miny = 0, maxx = 10, maxy = 10\<rparr>"

definition zero_area_box :: bbox where
  "zero_area_box = \<lparr>minx = 5, miny = 5, maxx = 5, maxy = 5\<rparr>"

definition example_boundary :: "bbox option gdf" where
  "example_boundary = [\<lparr>attributes = [], geometry = Some boundary_box\<rparr>]"

definition zero_area_boundary :: "bbox option gdf" where
  "zero_area_boundary = [\<lparr>attributes = [], geometry = Some zero_area_box\<rparr>]"

definition missing_geometry_boundary :: "bbox option gdf" where
  "missing_geometry_boundary = [\<lparr>attributes = [], geometry = None\<rparr>]"


definition example_features :: "bbox gdf" where
  "example_features = [feature_a, feature_b, feature_c]"

definition touching_features :: "bbox gdf" where
  "touching_features = [feature_t]"

definition unsorted_query :: "bbox gdf \<Rightarrow> bbox option \<Rightarrow> int list" where
  "unsorted_query features_gdf bgeom = (case bgeom of None \<Rightarrow> [] | Some b \<Rightarrow> [2, 1, 0])"

definition sorted_query :: "bbox gdf \<Rightarrow> bbox option \<Rightarrow> int list" where
  "sorted_query features_gdf bgeom = (case bgeom of None \<Rightarrow> [] | Some b \<Rightarrow> [0, 1, 2])"

definition single_query :: "bbox gdf \<Rightarrow> bbox option \<Rightarrow> int list" where
  "single_query features_gdf bgeom = (case bgeom of None \<Rightarrow> [] | Some b \<Rightarrow> [0])"

subsection \<open>The query\<close>

lemma fixed_query_params:
  "url_params ''where=1+%3D+1&outfields=*&f=json&resultRecordCount=1000&orderByFields=OBJECTID+ASC'' =
     [(''where'', ''1+%3D+1''), (''outfields'', ''*''), (''f'', ''json''),
      (''resultRecordCount'', ''1000''), (''orderByFields'', ''OBJECTID+ASC'')]"
  by (simp add: url_params_def key_value_def)

lemma where_clause_decoded: "form_decode ''1+%3D+1'' = ''1 = 1''"
  by code_simp

subsection \<open>What one download does\<close>

lemma requests_of_append: "requests_of (xs @ ys) = requests_of xs @ requests_of ys"
  by (induction xs rule: requests_of.induct) auto

lemmas fl_defs = featurelayer2shapefile_ogr_def log_call_def Let_def os_path_exists_def
  driver_DeleteDataSource_def driver_CreateDataSource_def ds_CopyLayer_def

lemma fl_calls:
  "\<exists>cs. calls (snd (featurelayer2shapefile_ogr drv opn u p w)) = calls w @ OgrOpen (query_url u) # cs
     \<and> requests_of cs = [] \<and> set (call_paths cs) \<subseteq> {p}"
  by (auto simp: fl_defs split: option.splits prod.splits if_splits)

lemma fl_trace:
  "opn (query_url u) = Some (layer # rest) \<Longrightarrow>
     new_calls w (snd (featurelayer2shapefile_ogr drv opn u p w)) =
       OgrOpen (query_url u) # driver_calls drv p (disk w)"
  by (auto simp: fl_defs new_calls_def driver_calls_def GetLayerByIndex0_def
      split: option.splits prod.splits if_splits)

lemma fl_success:
  assumes "featurelayer2shapefile_ogr drv opn u p w = (Inr (), w')"
  shows "\<exists>layer rest d1.
           opn (query_url u) = Some (layer # rest) \<and>
           create_ds drv p (if exists_at drv (disk w) p then delete_ds drv p (disk w) else disk w) = (True, d1) \<and>
           copy_layer drv p layer ''layer'' d1 = (True, disk w')"
  using assms
  by (auto simp: fl_defs GetLayerByIndex0_def
      split: option.splits prod.splits if_splits list.splits)

lemma fl_requests:
  "requests (snd (featurelayer2shapefile_ogr drv opn u p w)) = requests w @ [query_url u]"
proof -
  obtain cs where c: "calls (snd (featurelayer2shapefile_ogr drv opn u p w)) = calls w @ OgrOpen (query_url u) # cs"
    and r: "requests_of cs = []"
    using fl_calls [of drv opn u p w] by blast
  show ?thesis by (simp add: requests_def c r requests_of_append)
qed

lemma fl_new_call_paths:
  "set (call_paths (new_calls w (snd (featurelayer2shapefile_ogr drv opn u p w)))) \<subseteq> {p}"
proof -
  obtain cs where c: "calls (snd (featurelayer2shapefile_ogr drv opn u p w)) = calls w @ OgrOpen (query_url u) # cs"
    and r: "set (call_paths cs) \<subseteq> {p}"
    using fl_calls [of drv opn u p w] by blast
  show ?thesis using r by (simp add: new_calls_def c)
qed

lemma new_calls_same: "new_calls w w = []"
  by (simp add: new_calls_def)

lemma row_func_skipped:
  "skipped (id_list g) (layer_id row) \<Longrightarrow> row_func drv opn g row w = (Inr (), w)"
  by (simp add: row_func_def)

lemma row_func_download:
  "\<not> skipped (id_list g) (layer_id row) \<Longrightarrow>
     row_func drv opn g row w =
       featurelayer2shapefile_ogr drv opn (layer_url g (layer_id row))
         (os_path_join (download_folder g) (secure_filename g (layer_name row) @ ''.shp'')) w"
  by (simp add: row_func_def layer_url_def Let_def)

lemma df_apply_requests:
  "\<exists>ds. prefix ds (downloads g rows) \<and>
        requests (snd (df_apply drv opn g rows w)) = requests w @ ds \<and>
        (fst (df_apply drv opn g rows w) = Inr () \<longrightarrow> ds = downloads g rows)"
proof (induction rows arbitrary: w)
  case Nil
  show ?case by (simp add: downloads_def)
next
  case (Cons row rows)
  show ?case
  proof (cases "skipped (id_list g) (layer_id row)")
    case True
    then have "df_apply drv opn g (row # rows) w = df_apply drv opn g rows w"
      by (simp add: row_func_skipped)
    moreover from True have "downloads g (row # rows) = downloads g rows"
      by (simp add: downloads_def)
    ultimately show ?thesis using Cons.IH [of w] by simp
  next
    case False
    let ?u = "layer_url g (layer_id row)"
    let ?r = "row_func drv opn g row w"
    have req: "requests (snd ?r) = requests w @ [query_url ?u]"
      using False by (simp add: row_func_download fl_requests)
    have dl: "downloads g (row # rows) = query_url ?u # downloads g rows"
      using False by (simp add: downloads_def)
    show ?thesis
    proof (cases "fst ?r")
      case (Inl e)
      then have "df_apply drv opn g (row # rows) w = (Inl e, snd ?r)"
        by (cases ?r) simp
      then show ?thesis using req dl
        by (intro exI [of _ "[query_url ?u]"]) simp
    next
      case (Inr x)
      then have step: "df_apply drv opn g (row # rows) w = df_apply drv opn g rows (snd ?r)"
        by (cases ?r) simp
      obtain ds where ds: "prefix ds (downloads g rows)"
        "requests (snd (df_apply drv opn g rows (snd ?r))) = requests (snd ?r) @ ds"
        "fst (df_apply drv opn g rows (snd ?r)) = Inr () \<longrightarrow> ds = downloads g rows"
        using Cons.IH [of "snd ?r"] by blast
      show ?thesis using ds req dl step
        by (intro exI [of _ "query_url ?u # ds"]) simp
    qed
  qed
qed


subsection \<open>Claims about the download\<close>

text \<open>
  C8. Every call of \<^verbatim>\<open>featurelayer2shapefile_ogr\<close> hands exactly one URL to
  \<^verbatim>\<open>ogr.Open\<close>: the layer URL followed by \<^verbatim>\<open>/query/?\<close> and a query string that does
  not depend on any argument. Its parameters, decoded, are the always-true clause
  \<^verbatim>\<open>1 = 1\<close>, all fields, JSON, 1000 records per page, ordered by \<^verbatim>\<open>OBJECTID ASC\<close>.
\<close>

theorem query_is_fixed:
  "requests (snd (featurelayer2shapefile_ogr drv opn featurelayer_url shapefile_path w)) =
     requests w @ [query_url featurelayer_url] \<and>
   take (length featurelayer_url + 8) (query_url featurelayer_url) = featurelayer_url @ ''/query/?'' \<and>
   map (\<lambda>(k, v). (k, form_decode v))
     (url_params (drop (length featurelayer_url + 8) (query_url featurelayer_url))) =
     [(''where'', ''1 = 1''), (''outfields'', ''*''), (''f'', ''json''),
      (''resultRecordCount'', ''1000''), (''orderByFields'', ''OBJECTID ASC'')]"
proof -
  have qs: "drop (length featurelayer_url + 8) (query_url featurelayer_url) =
          ''where=1+%3D+1&outfields=*&f=json&resultRecordCount=1000&orderByFields=OBJECTID+ASC''"
    by (simp add: query_url_def)
  have dec: "form_decode ''OBJECTID+ASC'' = ''OBJECTID ASC''" "form_decode ''*'' = ''*''"
    "form_decode ''json'' = ''json''" "form_decode ''1000'' = ''1000''"
    by simp_all
  have "take (length featurelayer_url + 8) (query_url featurelayer_url) = featurelayer_url @ ''/query/?''"
    by (simp add: query_url_def)
  then show ?thesis
    by (simp add: fl_requests qs fixed_query_params where_clause_decoded dec del: form_decode.simps)
qed

lemma example_layer_url: "layer_url example_globals 4 = ''https://host/FeatureServer//4/''"
  by code_simp

lemma example_shp: "os_path_join (download_folder example_globals)
     (secure_filename example_globals (layer_name row4) @ ''.shp'') = ''/work/download/Leveed_Areas.shp''"
  by code_simp

lemma example_fetch:
  "example_service (query_url ''https://host/FeatureServer//4/'') = Some ([10, 11, 12] # [])"
  by (simp add: example_service_def)

lemma example_target: "shp_named ''/work/download/Leveed_Areas.shp''"
  "parent_folder ''/work/download/Leveed_Areas.shp'' = ''/work/download''"
  by (simp_all add: shp_named_def parent_folder_def)

lemma example_driver_simps:
  "exists_at example_driver = example_exists" "delete_ds example_driver = example_delete"
  "create_ds example_driver = example_create" "copy_layer example_driver = example_copy"
  by (simp_all add: example_driver_def)

lemma example_download:
  "fst (featurelayer2shapefile_ogr example_driver example_service ''https://host/FeatureServer//4/''
     ''/work/download/Leveed_Areas.shp'' example_world) = Inr ()"
  "stored (disk (snd (featurelayer2shapefile_ogr example_driver example_service ''https://host/FeatureServer//4/''
     ''/work/download/Leveed_Areas.shp'' example_world))) ''/work/download/Leveed_Areas.shp'' = [[10, 11, 12]]"
  by (simp_all add: fl_defs example_fetch GetLayerByIndex0_def example_driver_simps example_exists_def
      example_delete_def example_create_def example_copy_def example_target example_world_def stored_def)

lemma example_download_other_file:
  "fst (featurelayer2shapefile_ogr example_driver example_service ''https://host/FeatureServer//4/''
     ''/work/download/Leveed_Areas.shp'' other_file_world) = Inr ()"
  by (simp_all add: fl_defs example_fetch GetLayerByIndex0_def example_driver_simps example_exists_def
      example_delete_def example_create_def example_copy_def example_target other_file_world_def stored_def)

lemma example_download_no_folder:
  "fst (featurelayer2shapefile_ogr example_driver example_service ''https://host/FeatureServer//4/''
     ''/work/download/Leveed_Areas.shp'' no_folder_world) = Inl AttributeError"
  by (simp_all add: fl_defs example_fetch GetLayerByIndex0_def example_driver_simps example_exists_def
      example_delete_def example_create_def example_copy_def example_target no_folder_world_def stored_def)

text \<open>
  C9. Let the driver keep its contract at the target path, for \<open>layers_at\<close> the layers
  a reader finds there: a path at which nothing exists has no layers, deleting an
  existing path leaves no layers, creating the data source adds none, and a copy
  that does not return \<^verbatim>\<open>None\<close> appends the copied layer. Then after a successful
  call the target holds exactly one layer, the layer read from the service, whatever
  the disk held before; and the driver calls are, in this order, the deletion (when
  the path existed), the creation and the copy.
\<close>

theorem overwrite_existing:
  assumes ok: "fst (featurelayer2shapefile_ogr drv opn featurelayer_url shapefile_path w) = Inr ()"
    and absent: "\<And>d. \<not> exists_at drv d shapefile_path \<Longrightarrow> layers_at d shapefile_path = []"
    and deleted: "\<And>d. exists_at drv d shapefile_path \<Longrightarrow>
                    layers_at (delete_ds drv shapefile_path d) shapefile_path = []"
    and created: "\<And>d d'. create_ds drv shapefile_path d = (True, d') \<Longrightarrow>
                    layers_at d' shapefile_path = layers_at d shapefile_path"
    and copied: "\<And>d d' layer. copy_layer drv shapefile_path layer ''layer'' d = (True, d') \<Longrightarrow>
                    layers_at d' shapefile_path = layers_at d shapefile_path @ [layer]"
  shows "(\<exists>layer rest. opn (query_url featurelayer_url) = Some (layer # rest) \<and>
            layers_at (disk (snd (featurelayer2shapefile_ogr drv opn featurelayer_url shapefile_path w)))
              shapefile_path = [layer]) \<and>
         new_calls w (snd (featurelayer2shapefile_ogr drv opn featurelayer_url shapefile_path w)) =
           OgrOpen (query_url featurelayer_url) #
           (if os_path_exists drv w shapefile_path then [DeleteDataSource shapefile_path] else []) @
           [CreateDataSource shapefile_path, CopyLayer shapefile_path ''layer'']"
proof -
  let ?r = "featurelayer2shapefile_ogr drv opn featurelayer_url shapefile_path w"
  let ?d0 = "if exists_at drv (disk w) shapefile_path
             then delete_ds drv shapefile_path (disk w) else disk w"
  have r: "?r = (Inr (), snd ?r)"
    using ok by (cases ?r) simp
  from fl_success [OF r] obtain layer rest d1 where
    fetch: "opn (query_url featurelayer_url) = Some (layer # rest)"
    and cr: "create_ds drv shapefile_path ?d0 = (True, d1)"
    and cp: "copy_layer drv shapefile_path layer ''layer'' d1 = (True, disk (snd ?r))"
    by blast
  have "layers_at ?d0 shapefile_path = []"
    using absent [of "disk w"] deleted [of "disk w"] by simp
  then have "layers_at d1 shapefile_path = []"
    using created [OF cr] by simp
  then have final: "layers_at (disk (snd ?r)) shapefile_path = [layer]"
    using copied [OF cp] by simp
  have "new_calls w (snd ?r) = OgrOpen (query_url featurelayer_url) # driver_calls drv shapefile_path (disk w)"
    using fetch by (rule fl_trace)
  then have "new_calls w (snd ?r) =
           OgrOpen (query_url featurelayer_url) #
           (if os_path_exists drv w shapefile_path then [DeleteDataSource shapefile_path] else []) @
           [CreateDataSource shapefile_path, CopyLayer shapefile_path ''layer'']"
    using cr by (simp add: driver_calls_def os_path_exists_def)
  with fetch final show ?thesis by blast
qed

theorem overwrite_existing_witness:
  "stored (disk example_world) ''/work/download/Leveed_Areas.shp'' = [[7]] \<and>
   fst (featurelayer2shapefile_ogr example_driver example_service ''https://host/FeatureServer//4/''
          ''/work/download/Leveed_Areas.shp'' example_world) = Inr () \<and>
   stored (disk (snd (featurelayer2shapefile_ogr example_driver example_service ''https://host/FeatureServer//4/''
          ''/work/download/Leveed_Areas.shp'' example_world))) ''/work/download/Leveed_Areas.shp'' =
     [[10, 11, 12]] \<and>
   new_calls example_world (snd (featurelayer2shapefile_ogr example_driver example_service
          ''https://host/FeatureServer//4/'' ''/work/download/Leveed_Areas.shp'' example_world)) =
     [OgrOpen (query_url ''https://host/FeatureServer//4/''),
      DeleteDataSource ''/work/download/Leveed_Areas.shp'',
      CreateDataSource ''/work/download/Leveed_Areas.shp'',
      CopyLayer ''/work/download/Leveed_Areas.shp'' ''layer''] \<and>
   nodes (disk other_file_world) ''/work/download/Leveed_Areas.shp'' = Some OtherFile \<and>
   stored (disk (snd (featurelayer2shapefile_ogr example_driver example_service ''https://host/FeatureServer//4/''
          ''/work/download/Leveed_Areas.shp'' other_file_world))) ''/work/download/Leveed_Areas.shp'' =
     [[10, 11, 12]]"
proof -
  let ?p = "''/work/download/Leveed_Areas.shp''"
  have old: "stored (disk example_world) ?p = [[7]]"
    by (simp add: stored_def example_world_def)
  have ex: "os_path_exists example_driver example_world ?p"
    by (simp add: os_path_exists_def example_driver_simps example_exists_def example_world_def)
  have absent: "\<not> exists_at example_driver d ?p \<Longrightarrow> stored d ?p = []" for d :: "nat example_disk"
    by (simp add: example_driver_simps example_exists_def stored_def)
  have deleted: "exists_at example_driver d ?p \<Longrightarrow> stored (delete_ds example_driver ?p d) ?p = []"
    for d :: "nat example_disk"
    by (simp add: example_driver_simps example_delete_def example_target stored_def)
  have created: "create_ds example_driver ?p d = (True, d') \<Longrightarrow> stored d' ?p = stored d ?p"
    for d d' :: "nat example_disk"
    by (auto simp: example_driver_simps example_create_def)
  have copied: "copy_layer example_driver ?p layer ''layer'' d = (True, d') \<Longrightarrow>
                  stored d' ?p = stored d ?p @ [layer]"
    for d d' :: "nat example_disk" and layer
    by (auto simp: example_driver_simps example_copy_def stored_def split: if_splits)
  have other: "nodes (disk other_file_world) ?p = Some OtherFile"
    by (simp add: other_file_world_def)
  from overwrite_existing [of example_driver example_service "''https://host/FeatureServer//4/''" ?p
      example_world stored, OF example_download(1) absent deleted created copied]
    overwrite_existing [of example_driver example_service "''https://host/FeatureServer//4/''" ?p
      other_file_world stored, OF example_download_other_file absent deleted created copied]
  show ?thesis
    using old ex other example_download(1) example_fetch by simp
qed

subsection \<open>Claims about the loop over the layers\<close>

text \<open>
  C10. A row whose id is not in the list \<^verbatim>\<open>id_list\<close> leaves the world as it is: no
  call, no file. A row whose id is in the list, and every row when \<^verbatim>\<open>id_list\<close> is
  \<^verbatim>\<open>None\<close> or not a list, runs the download of its layer, which issues the query of
  that layer. Over the whole table the queries issued are those of the rows that are
  not filtered out, in table order, up to the first download that raises.
\<close>

theorem allow_list_filter:
  "(id_list g = IdList xs \<and> layer_id row \<notin> set xs \<longrightarrow> row_func drv opn g row w = (Inr (), w)) \<and>
   ((id_list g = IdList xs \<and> layer_id row \<in> set xs) \<or> id_list g = IdNone \<or> id_list g = IdOther \<longrightarrow>
      row_func drv opn g row w =
        featurelayer2shapefile_ogr drv opn (layer_url g (layer_id row))
          (os_path_join (download_folder g) (secure_filename g (layer_name row) @ ''.shp'')) w \<and>
      requests (snd (row_func drv opn g row w)) = requests w @ [query_url (layer_url g (layer_id row))]) \<and>
   (\<exists>ds. prefix ds (downloads g rows) \<and>
      requests (snd (df_apply drv opn g rows w)) = requests w @ ds \<and>
      (fst (df_apply drv opn g rows w) = Inr () \<longrightarrow> ds = downloads g rows)) \<and>
   (id_list g = IdList xs \<longrightarrow>
      downloads g rows = map (\<lambda>r. query_url (layer_url g (layer_id r))) (filter (\<lambda>r. layer_id r \<in> set xs) rows)) \<and>
   (id_list g = IdNone \<or> id_list g = IdOther \<longrightarrow>
      downloads g rows = map (\<lambda>r. query_url (layer_url g (layer_id r))) rows)"
proof -
  have a: "id_list g = IdList xs \<and> layer_id row \<notin> set xs \<longrightarrow> row_func drv opn g row w = (Inr (), w)"
    by (simp add: row_func_skipped skipped_def)
  have b: "(id_list g = IdList xs \<and> layer_id row \<in> set xs) \<or> id_list g = IdNone \<or> id_list g = IdOther \<longrightarrow>
      row_func drv opn g row w =
        featurelayer2shapefile_ogr drv opn (layer_url g (layer_id row))
          (os_path_join (download_folder g) (secure_filename g (layer_name row) @ ''.shp'')) w \<and>
      requests (snd (row_func drv opn g row w)) = requests w @ [query_url (layer_url g (layer_id row))]"
  proof
    assume "(id_list g = IdList xs \<and> layer_id row \<in> set xs) \<or> id_list g = IdNone \<or> id_list g = IdOther"
    then have "\<not> skipped (id_list g) (layer_id row)"
      by (auto simp: skipped_def)
    then show "row_func drv opn g row w =
        featurelayer2shapefile_ogr drv opn (layer_url g (layer_id row))
          (os_path_join (download_folder g) (secure_filename g (layer_name row) @ ''.shp'')) w \<and>
      requests (snd (row_func drv opn g row w)) = requests w @ [query_url (layer_url g (layer_id row))]"
      by (simp add: row_func_download fl_requests)
  qed
  have c: "id_list g = IdList xs \<longrightarrow>
      downloads g rows = map (\<lambda>r. query_url (layer_url g (layer_id r))) (filter (\<lambda>r. layer_id r \<in> set xs) rows)"
    by (simp add: downloads_def skipped_def)
  have d: "id_list g = IdNone \<or> id_list g = IdOther \<longrightarrow>
      downloads g rows = map (\<lambda>r. query_url (layer_url g (layer_id r))) rows"
    by (auto simp: downloads_def skipped_def)
  show ?thesis
    using a b c d df_apply_requests [of g rows drv opn w] by blast
qed

lemma example_row5_skipped: "layer_id row5 \<notin> set [4]" "id_list example_globals = IdList [4]"
  "layer_id row4 \<in> set [4]"
  by (simp_all add: row5_def row4_def example_globals_def)

theorem allow_list_filter_witness:
  "row_func example_driver example_service example_globals row5 example_world = (Inr (), example_world) \<and>
   requests (snd (row_func example_driver example_service example_globals row4 example_world)) =
     [query_url ''https://host/FeatureServer//4/''] \<and>
   requests (snd (df_apply example_driver example_service example_globals [row5, row4] example_world)) =
     [query_url ''https://host/FeatureServer//4/'']"
proof -
  note f = allow_list_filter [where g = example_globals and xs = "[4]" and drv = example_driver
      and opn = example_service and w = example_world and rows = "[row5, row4]"]
  have r5: "row_func example_driver example_service example_globals row5 example_world = (Inr (), example_world)"
    using f [where row = row5] example_row5_skipped by blast
  have r4: "requests (snd (row_func example_driver example_service example_globals row4 example_world)) =
     requests example_world @ [query_url (layer_url example_globals (layer_id row4))]"
    using f [where row = row4] example_row5_skipped by blast
  have r4': "row_func example_driver example_service example_globals row4 example_world =
       featurelayer2shapefile_ogr example_driver example_service ''https://host/FeatureServer//4/''
         ''/work/download/Leveed_Areas.shp'' example_world"
    using f [where row = row4] example_row5_skipped example_layer_url example_shp by (simp add: row4_def)
  have "fst (row_func example_driver example_service example_globals row4 example_world) = Inr ()"
    by (simp add: r4' example_download(1))
  then have "fst (df_apply example_driver example_service example_globals [row4] example_world) = Inr ()"
    by (cases "row_func example_driver example_service example_globals row4 example_world") simp
  then have ok: "fst (df_apply example_driver example_service example_globals [row5, row4] example_world) = Inr ()"
    by (simp add: r5)
  have dl: "downloads example_globals [row5, row4] = [query_url ''https://host/FeatureServer//4/'']"
    using f [where row = row4] example_row5_skipped example_layer_url by (simp add: row4_def row5_def)
  have lp: "requests (snd (df_apply example_driver example_service example_globals [row5, row4] example_world)) =
     requests example_world @ downloads example_globals [row5, row4]"
    using f [where row = row4] ok by auto
  have e: "requests example_world = []"
    by (simp add: requests_def example_world_def)
  show ?thesis
    using r5 r4 lp dl e example_layer_url by (simp add: row4_def)
qed

text \<open>
  C7. A row that is not filtered out runs the download with the path
  \<^verbatim>\<open>os.path.join(download_folder, secure_filename(name) + '.shp')\<close>, the name having
  gone through \<^verbatim>\<open>secure_filename\<close>. That path is the one the shapefile driver is
  called with: when the service yields a layer, the calls of the row are the
  \<^verbatim>\<open>ogr.Open\<close> of the layer's query followed by the deletion (when the path exists),
  the creation and the copy at that path; and no driver call of any row names another
  path. With a non-empty sanitized name that does not begin with a separator, the
  path is the download folder, a separator, the sanitized name and \<^verbatim>\<open>.shp\<close>.
\<close>

theorem sanitized_shapefile_path:
  "((id_list g = IdList xs \<and> layer_id row \<in> set xs) \<or> id_list g = IdNone \<or> id_list g = IdOther \<longrightarrow>
      row_func drv opn g row w =
        featurelayer2shapefile_ogr drv opn (layer_url g (layer_id row))
          (os_path_join (download_folder g) (secure_filename g (layer_name row) @ ''.shp'')) w \<and>
      (opn (query_url (layer_url g (layer_id row))) = Some (layer # rest) \<longrightarrow>
         new_calls w (snd (row_func drv opn g row w)) =
           OgrOpen (query_url (layer_url g (layer_id row))) #
           driver_calls drv
             (os_path_join (download_folder g) (secure_filename g (layer_name row) @ ''.shp'')) (disk w))) \<and>
   set (call_paths (new_calls w (snd (row_func drv opn g row w)))) \<subseteq>
     {os_path_join (download_folder g) (secure_filename g (layer_name row) @ ''.shp'')} \<and>
   CreateDataSource path \<in> set (driver_calls drv path d) \<and>
   (secure_filename g (layer_name row) \<noteq> [] \<and> hd (secure_filename g (layer_name row)) \<noteq> CHR ''/'' \<and>
    download_folder g \<noteq> [] \<and> last (download_folder g) \<noteq> CHR ''/'' \<longrightarrow>
      os_path_join (download_folder g) (secure_filename g (layer_name row) @ ''.shp'') =
        download_folder g @ ''/'' @ secure_filename g (layer_name row) @ ''.shp'')"
proof -
  let ?p = "os_path_join (download_folder g) (secure_filename g (layer_name row) @ ''.shp'')"
  let ?u = "layer_url g (layer_id row)"
  let ?w' = "snd (row_func drv opn g row w)"
  have a: "row_func drv opn g row w = featurelayer2shapefile_ogr drv opn ?u ?p w \<and>
      (opn (query_url ?u) = Some (layer # rest) \<longrightarrow>
         new_calls w ?w' = OgrOpen (query_url ?u) # driver_calls drv ?p (disk w))"
    if "(id_list g = IdList xs \<and> layer_id row \<in> set xs) \<or> id_list g = IdNone \<or> id_list g = IdOther"
  proof -
    from that have "\<not> skipped (id_list g) (layer_id row)"
      by (auto simp: skipped_def)
    then have r: "row_func drv opn g row w = featurelayer2shapefile_ogr drv opn ?u ?p w"
      by (rule row_func_download)
    show ?thesis
      unfolding r using fl_trace [of opn ?u layer rest w drv ?p] by simp
  qed
  have b: "set (call_paths (new_calls w ?w')) \<subseteq> {?p}"
  proof (cases "skipped (id_list g) (layer_id row)")
    case True
    then have "row_func drv opn g row w = (Inr (), w)"
      by (rule row_func_skipped)
    then show ?thesis
      by (simp add: new_calls_same)
  next
    case False
    then have "row_func drv opn g row w = featurelayer2shapefile_ogr drv opn ?u ?p w"
      by (rule row_func_download)
    then show ?thesis
      by (simp add: fl_new_call_paths)
  qed
  have c: "CreateDataSource path \<in> set (driver_calls drv path d)"
    by (simp add: driver_calls_def)
  have d: "secure_filename g (layer_name row) \<noteq> [] \<and> hd (secure_filename g (layer_name row)) \<noteq> CHR ''/'' \<and>
    download_folder g \<noteq> [] \<and> last (download_folder g) \<noteq> CHR ''/'' \<longrightarrow>
      ?p = download_folder g @ ''/'' @ secure_filename g (layer_name row) @ ''.shp''"
    by (simp add: os_path_join_def)
  show ?thesis using a b c d by blast
qed

theorem sanitized_shapefile_path_witness:
  "secure_filename example_globals (layer_name row4) = ''Leveed_Areas'' \<and>
   os_path_join (download_folder example_globals) (secure_filename example_globals (layer_name row4) @ ''.shp'') =
     ''/work/download/Leveed_Areas.shp'' \<and>
   new_calls example_world (snd (row_func example_driver example_service example_globals row4 example_world)) =
     [OgrOpen (query_url ''https://host/FeatureServer//4/''),
      DeleteDataSource ''/work/download/Leveed_Areas.shp'',
      CreateDataSource ''/work/download/Leveed_Areas.shp'',
      CopyLayer ''/work/download/Leveed_Areas.shp'' ''layer'']"
proof -
  have s: "secure_filename example_globals (layer_name row4) = ''Leveed_Areas''"
    by code_simp
  have i: "(id_list example_globals = IdList [4] \<and> layer_id row4 \<in> set [4]) \<or>
           id_list example_globals = IdNone \<or> id_list example_globals = IdOther"
    by (simp add: example_globals_def row4_def)
  have l: "layer_url example_globals (layer_id row4) = ''https://host/FeatureServer//4/''"
    using example_layer_url by (simp add: row4_def)
  have f: "example_service (query_url (layer_url example_globals (layer_id row4))) = Some ([10, 11, 12] # [])"
    unfolding l by (rule example_fetch)
  have dc: "driver_calls example_driver ''/work/download/Leveed_Areas.shp'' (disk example_world) =
      [DeleteDataSource ''/work/download/Leveed_Areas.shp'',
       CreateDataSource ''/work/download/Leveed_Areas.shp'',
       CopyLayer ''/work/download/Leveed_Areas.shp'' ''layer'']"
    by (simp add: driver_calls_def example_driver_simps example_exists_def example_delete_def
        example_create_def example_target example_world_def)
  have "new_calls example_world (snd (row_func example_driver example_service example_globals row4 example_world)) =
          OgrOpen (query_url (layer_url example_globals (layer_id row4))) #
          driver_calls example_driver
            (os_path_join (download_folder example_globals)
               (secure_filename example_globals (layer_name row4) @ ''.shp'')) (disk example_world)"
    using sanitized_shapefile_path [where g = example_globals and xs = "[4]" and row = row4
        and drv = example_driver and opn = example_service and w = example_world
        and layer = "[10, 11, 12]" and rest = "[]"] i f
    by blast
  then have "new_calls example_world (snd (row_func example_driver example_service example_globals row4 example_world)) =
     [OgrOpen (query_url ''https://host/FeatureServer//4/''),
      DeleteDataSource ''/work/download/Leveed_Areas.shp'',
      CreateDataSource ''/work/download/Leveed_Areas.shp'',
      CopyLayer ''/work/download/Leveed_Areas.shp'' ''layer'']"
    unfolding l example_shp dc .
  with s example_shp show ?thesis by blast
qed

text \<open>
  C6, as the code has it. When \<^verbatim>\<open>ogr.Open\<close> returns \<^verbatim>\<open>None\<close> for the query URL, the
  download raises \<^verbatim>\<open>AttributeError\<close> at once: the world is the one before the call
  plus the logged \<^verbatim>\<open>ogr.Open\<close>, nothing is deleted or written, and no offset is
  carried. \<^verbatim>\<open>AttributeError\<close> is the only error the download ever raises. In the loop
  the exception of a row that is not filtered out ends the loop there: the rows after
  it are not processed.
\<close>

theorem failed_open_is_attribute_error:
  "(opn (query_url featurelayer_url) = None \<longrightarrow>
      featurelayer2shapefile_ogr drv opn featurelayer_url shapefile_path w =
        (Inl AttributeError, log_call (OgrOpen (query_url featurelayer_url)) w)) \<and>
   (fst (featurelayer2shapefile_ogr drv opn featurelayer_url shapefile_path w) = Inr () \<or>
    fst (featurelayer2shapefile_ogr drv opn featurelayer_url shapefile_path w) = Inl AttributeError) \<and>
   (opn (query_url (layer_url g (layer_id row))) = None \<and>
    (id_list g = IdNone \<or> id_list g = IdOther \<or> (\<exists>xs. id_list g = IdList xs \<and> layer_id row \<in> set xs)) \<longrightarrow>
      df_apply drv opn g (row # rows) w =
        (Inl AttributeError, log_call (OgrOpen (query_url (layer_url g (layer_id row)))) w))"
proof -
  have a: "opn (query_url u) = None \<longrightarrow>
      featurelayer2shapefile_ogr drv opn u p v = (Inl AttributeError, log_call (OgrOpen (query_url u)) v)"
    for u p v
    by (simp add: featurelayer2shapefile_ogr_def)
  have b: "fst (featurelayer2shapefile_ogr drv opn featurelayer_url shapefile_path w) = Inr () \<or>
    fst (featurelayer2shapefile_ogr drv opn featurelayer_url shapefile_path w) = Inl AttributeError"
    by (simp add: featurelayer2shapefile_ogr_def Let_def split: option.splits prod.splits)
  have c: "opn (query_url (layer_url g (layer_id row))) = None \<and>
    (id_list g = IdNone \<or> id_list g = IdOther \<or> (\<exists>xs. id_list g = IdList xs \<and> layer_id row \<in> set xs)) \<longrightarrow>
      df_apply drv opn g (row # rows) w =
        (Inl AttributeError, log_call (OgrOpen (query_url (layer_url g (layer_id row)))) w)"
  proof
    assume h: "opn (query_url (layer_url g (layer_id row))) = None \<and>
      (id_list g = IdNone \<or> id_list g = IdOther \<or> (\<exists>xs. id_list g = IdList xs \<and> layer_id row \<in> set xs))"
    then have "\<not> skipped (id_list g) (layer_id row)"
      by (auto simp: skipped_def)
    then have "row_func drv opn g row w =
        (Inl AttributeError, log_call (OgrOpen (query_url (layer_url g (layer_id row)))) w)"
      using h a by (simp add: row_func_download)
    then show "df_apply drv opn g (row # rows) w =
        (Inl AttributeError, log_call (OgrOpen (query_url (layer_url g (layer_id row)))) w)"
      by simp
  qed
  show ?thesis using a b c by blast
qed

theorem failed_open_is_attribute_error_witness:
  "featurelayer2shapefile_ogr example_driver unreachable_service ''https://host/FeatureServer//4/''
      ''/work/download/Leveed_Areas.shp'' example_world =
     (Inl AttributeError, log_call (OgrOpen (query_url ''https://host/FeatureServer//4/'')) example_world) \<and>
   df_apply example_driver unreachable_service example_globals [row4, row5] example_world =
     (Inl AttributeError, log_call (OgrOpen (query_url ''https://host/FeatureServer//4/'')) example_world)"
proof -
  have n: "unreachable_service u = None" for u
    by (simp add: unreachable_service_def)
  have i: "id_list example_globals = IdList [4] \<and> layer_id row4 \<in> set [4]"
    by (simp add: example_globals_def row4_def)
  have l: "layer_url example_globals (layer_id row4) = ''https://host/FeatureServer//4/''"
    using example_layer_url by (simp add: row4_def)
  show ?thesis
    using failed_open_is_attribute_error [where opn = unreachable_service
        and featurelayer_url = "''https://host/FeatureServer//4/''"
        and shapefile_path = "''/work/download/Leveed_Areas.shp''" and w = example_world
        and drv = example_driver and g = example_globals and row = row4 and rows = "[row5]"] n i l
    by auto
qed

text \<open>
  With a service that cannot be opened the download ends in \<^verbatim>\<open>AttributeError\<close>, which
  is neither a \<open>FetchError\<close> with the offset of the first page nor a \<open>ParseError\<close>.
\<close>

theorem fetch_error_counterexample:
  "fst (featurelayer2shapefile_ogr example_driver unreachable_service ''https://host/FeatureServer//4/''
      ''/work/download/Leveed_Areas.shp'' example_world) = Inl AttributeError \<and>
   fst (featurelayer2shapefile_ogr example_driver unreachable_service ''https://host/FeatureServer//4/''
      ''/work/download/Leveed_Areas.shp'' example_world) \<noteq> Inl (FetchError 0) \<and>
   fst (featurelayer2shapefile_ogr example_driver unreachable_service ''https://host/FeatureServer//4/''
      ''/work/download/Leveed_Areas.shp'' example_world) \<noteq> Inl ParseError"
  by (simp add: featurelayer2shapefile_ogr_def unreachable_service_def)

subsection \<open>Positional indexing and the order of rows\<close>

lemma iloc_mem: "iloc df i = Inr row \<Longrightarrow> row \<in> set df"
  by (auto simp: iloc_def split: if_splits)

lemma iloc_take_subset: "iloc_take df positions = Inr rows \<Longrightarrow> set rows \<subseteq> set df"
proof (induction positions arbitrary: rows)
  case Nil
  then show ?case by simp
next
  case (Cons i positions)
  then show ?case
    by (auto split: sum.splits dest: iloc_mem)
qed

lemma iloc_in_range: "0 \<le> i \<Longrightarrow> i < int (length df) \<Longrightarrow> iloc df i = Inr (df ! nat i)"
  by (simp add: iloc_def)

lemma iloc_take_in_range:
  "\<forall>i \<in> set positions. 0 \<le> i \<and> i < int (length df) \<Longrightarrow>
     iloc_take df positions = Inr (map (\<lambda>i. df ! nat i) positions)"
  by (induction positions) (simp_all add: iloc_in_range)

lemma ascending_subseq_upt:
  assumes "sorted_wrt (<) js" and "\<forall>j \<in> set js. j < n"
  shows "subseq js [0 ..< n]"
proof -
  have "sorted js" "distinct js"
    using assms(1) by (simp_all add: strict_sorted_iff)
  moreover have "sorted (filter (\<lambda>i. i \<in> set js) [0 ..< n])"
    by (rule sorted_wrt_filter) simp
  moreover have "distinct (filter (\<lambda>i. i \<in> set js) [0 ..< n])"
    by simp
  moreover have "set js = set (filter (\<lambda>i. i \<in> set js) [0 ..< n])"
    using assms(2) by auto
  ultimately have "js = filter (\<lambda>i. i \<in> set js) [0 ..< n]"
    by (rule sorted_distinct_set_unique)
  then show ?thesis
    by (metis subseq_filter_left)
qed

lemma ascending_rows_subseq:
  assumes "sorted_wrt (<) js" and "\<forall>j \<in> set js. j < length df"
  shows "subseq (map ((!) df) js) df"
proof -
  have "subseq (map ((!) df) js) (map ((!) df) [0 ..< length df])"
    using ascending_subseq_upt [OF assms] by (rule subseq_map)
  then show ?thesis by (simp add: map_nth)
qed

lemma ascending_positions_subseq:
  assumes "sorted_wrt (<) positions" and "\<forall>i \<in> set positions. 0 \<le> i \<and> i < int (length df)"
  shows "subseq (map (\<lambda>i. df ! nat i) positions) df"
proof -
  have "sorted_wrt (<) (map nat positions)"
    using assms by (induction positions) auto
  moreover have "\<forall>j \<in> set (map nat positions). j < length df"
    using assms(2) by auto
  ultimately have "subseq (map ((!) df) (map nat positions)) df"
    by (rule ascending_rows_subseq)
  then show ?thesis by (simp add: comp_def)
qed


lemma query_ok_in_range:
  assumes "sindex_query_ok bounds features_gdf b positions" and "i \<in> set positions"
  shows "0 \<le> i \<and> i < int (length features_gdf) \<and>
         bbox_intersects (bounds (geometry (features_gdf ! nat i))) (bounds b)"
  using assms by (auto simp: sindex_query_ok_def candidate_positions_def)

lemma clip_Some:
  assumes "boundary_geom boundary_gdf = Inr (Some b)"
    and "clip_possible_gdf sindex_query features_gdf (Some b) = Inr possible"
  shows "clip sindex_query geom_within features_gdf boundary_gdf =
           Inr (filter (\<lambda>row. geom_within (geometry row) b) possible)"
  using assms by (simp add: clip_def clip_exact_gdf_def)

lemma clip_Inr_boundary:
  assumes "clip sindex_query geom_within features_gdf boundary_gdf = Inr result"
    and "boundary_geom boundary_gdf = Inr bgeom"
  shows "\<exists>b. bgeom = Some b"
  using assms by (cases bgeom) (auto simp: clip_def clip_exact_gdf_def split: sum.splits)

subsection \<open>Boxes and the DE-9IM relation\<close>

lemma box_within_de9im: "box_within a b = de9im_within box_pts box_inner a b"
proof
  assume w: "box_within a b"
  have "(((minx a + maxx a) / 2, (miny a + maxy a) / 2)) \<in> box_inner a \<inter> box_inner b"
    using w by (simp add: box_within_def box_inner_def)
  then have "box_inner a \<inter> box_inner b \<noteq> {}"
    by blast
  moreover have "box_pts a \<subseteq> box_pts b"
    using w by (auto simp: box_within_def box_pts_def)
  ultimately show "de9im_within box_pts box_inner a b"
    by (simp add: de9im_within_def)
next
  assume d: "de9im_within box_pts box_inner a b"
  then obtain x y where "(x, y) \<in> box_inner a"
    by (auto simp: de9im_within_def)
  then have pos: "minx a < maxx a" "miny a < maxy a"
    by (auto simp: box_inner_def)
  then have "(minx a, miny a) \<in> box_pts a" "(maxx a, maxy a) \<in> box_pts a"
    by (simp_all add: box_pts_def)
  then have "(minx a, miny a) \<in> box_pts b" "(maxx a, maxy a) \<in> box_pts b"
    using d by (auto simp: de9im_within_def)
  then show "box_within a b"
    using pos by (simp add: box_within_def box_pts_def)
qed


lemma iloc_take_nonneg:
  "iloc_take df positions = Inr rows \<Longrightarrow> \<forall>i \<in> set positions. 0 \<le> i \<Longrightarrow>
     (\<forall>i \<in> set positions. i < int (length df)) \<and> rows = map (\<lambda>i. df ! nat i) positions"
proof (induction positions arbitrary: rows)
  case Nil
  then show ?case by simp
next
  case (Cons i positions)
  from Cons.prems obtain row rest where
    row: "iloc df i = Inr row" and rest: "iloc_take df positions = Inr rest" and rows: "rows = row # rest"
    by (auto split: sum.splits)
  have "0 \<le> i" using Cons.prems(2) by simp
  with row have "i < int (length df)" "row = df ! nat i"
    by (auto simp: iloc_def split: if_splits)
  moreover have "(\<forall>i \<in> set positions. i < int (length df)) \<and> rest = map (\<lambda>i. df ! nat i) positions"
    using Cons.IH [OF rest] Cons.prems(2) by simp
  ultimately show ?case using rows by simp
qed


subsection \<open>Claims about the clip\<close>

text \<open>
  C2. When every position the index query returns is a position of the table whose
  row has a bounding box that intersects the bounding box of the boundary, every row
  of the clip is a row of the table, has such a bounding box, and passes the
  \<^verbatim>\<open>within\<close> test against the boundary.
\<close>

theorem clip_subset:
  assumes "clip sindex_query geom_within features_gdf boundary_gdf = Inr result"
    and "boundary_geom boundary_gdf = Inr (Some b)"
    and "\<forall>i \<in> set (sindex_query features_gdf (Some b)).
           0 \<le> i \<and> i < int (length features_gdf) \<and>
           bbox_intersects (bounds (geometry (features_gdf ! nat i))) (bounds b)"
  shows "set result \<subseteq> set features_gdf \<and>
         (\<forall>f \<in> set result.
            bbox_intersects (bounds (geometry f)) (bounds b) \<and> geom_within (geometry f) b)"
proof -
  let ?positions = "sindex_query features_gdf (Some b)"
  let ?possible = "map (\<lambda>i. features_gdf ! nat i) ?positions"
  have "\<forall>i \<in> set ?positions. 0 \<le> i \<and> i < int (length features_gdf)"
    using assms(3) by blast
  then have p: "clip_possible_gdf sindex_query features_gdf (Some b) = Inr ?possible"
    unfolding clip_possible_gdf_def by (rule iloc_take_in_range)
  have r: "result = filter (\<lambda>row. geom_within (geometry row) b) ?possible"
    using assms(1) clip_Some [OF assms(2) p, of geom_within] by simp
  have sub: "set ?possible \<subseteq> set features_gdf"
    using p unfolding clip_possible_gdf_def by (rule iloc_take_subset)
  have bb: "bbox_intersects (bounds (geometry f)) (bounds b)" if "f \<in> set ?possible" for f
  proof -
    from that obtain i where "i \<in> set ?positions" "f = features_gdf ! nat i"
      by auto
    then show ?thesis
      using assms(3) by blast
  qed
  show ?thesis
    using sub bb by (auto simp: r)
qed

text \<open>
  C3, as the code has it. Let \<^verbatim>\<open>within\<close> be the DE-9IM relation on the candidates of
  the first pass. Then the second pass keeps a candidate exactly when no point of it
  lies outside the boundary and its interior meets the interior of the boundary. A
  feature that touches the boundary geometry (shares points with it but no interior
  point) is not in the clip, and neither is a feature that intersects it and has a
  point outside it: the test is containment, not intersection. A candidate that lies
  in the boundary geometry and reaches its edge from inside is kept.
\<close>

theorem clip_tests_containment:
  assumes "clip sindex_query geom_within features_gdf boundary_gdf = Inr result"
    and "boundary_geom boundary_gdf = Inr (Some b)"
    and "clip_possible_gdf sindex_query features_gdf (Some b) = Inr possible"
    and "\<forall>c \<in> set possible. geom_within (geometry c) b = de9im_within pts inner (geometry c) b"
  shows "(f \<in> set result \<longleftrightarrow>
            f \<in> set possible \<and> pts (geometry f) \<subseteq> pts b \<and> inner (geometry f) \<inter> inner b \<noteq> {}) \<and>
         (de9im_touches pts inner (geometry f) b \<longrightarrow> f \<notin> set result) \<and>
         (de9im_intersects pts (geometry f) b \<and> \<not> pts (geometry f) \<subseteq> pts b \<longrightarrow> f \<notin> set result)"
proof -
  have r: "result = filter (\<lambda>row. geom_within (geometry row) b) possible"
    using assms(1) clip_Some [OF assms(2) assms(3), of geom_within] by simp
  have a: "f \<in> set result \<longleftrightarrow>
            f \<in> set possible \<and> pts (geometry f) \<subseteq> pts b \<and> inner (geometry f) \<inter> inner b \<noteq> {}"
    using assms(4) by (auto simp: r de9im_within_def)
  show ?thesis
    using a by (auto simp: de9im_touches_def)
qed

lemma example_bgeom: "boundary_geom example_boundary = Inr (Some boundary_box)"
  "boundary_geom zero_area_boundary = Inr (Some zero_area_box)"
  "boundary_geom missing_geometry_boundary = Inr None"
  by (simp_all add: boundary_geom_def iloc_def example_boundary_def zero_area_boundary_def
      missing_geometry_boundary_def)

lemma example_possible:
  "clip_possible_gdf unsorted_query example_features (Some b) = Inr [feature_c, feature_b, feature_a]"
  "clip_possible_gdf sorted_query example_features (Some b) = Inr [feature_a, feature_b, feature_c]"
  "clip_possible_gdf single_query touching_features (Some b) = Inr [feature_t]"
  by (simp_all add: clip_possible_gdf_def unsorted_query_def sorted_query_def single_query_def
      example_features_def touching_features_def iloc_def)

lemma example_within:
  "box_within (geometry feature_a) boundary_box"
  "box_within (geometry feature_b) boundary_box"
  "\<not> box_within (geometry feature_c) boundary_box"
  "box_within (geometry feature_t) boundary_box"
  by (simp_all add: box_within_def feature_a_def feature_b_def feature_c_def feature_t_def
      boundary_box_def)

lemma example_clip:
  "clip unsorted_query box_within example_features example_boundary = Inr [feature_b, feature_a]"
  "clip sorted_query box_within example_features example_boundary = Inr [feature_a, feature_b]"
  "clip single_query box_within touching_features example_boundary = Inr [feature_t]"
  by (simp_all add: clip_Some [OF example_bgeom(1) example_possible(1)]
      clip_Some [OF example_bgeom(1) example_possible(2)]
      clip_Some [OF example_bgeom(1) example_possible(3)] example_within)

lemma example_candidates:
  "candidate_positions box_bounds example_features boundary_box = [0, 1, 2]"
proof -
  have "[0 ..< length example_features] = [0, 1, 2]"
    by (simp add: example_features_def upt_rec)
  then show ?thesis
    by (simp add: candidate_positions_def example_features_def box_bounds_def bbox_intersects_def
        feature_a_def feature_b_def feature_c_def boundary_box_def)
qed

lemma example_query_ok:
  "sindex_query_ok box_bounds example_features boundary_box
     (unsorted_query example_features (Some boundary_box))"
  "sindex_query_ok box_bounds example_features boundary_box
     (sorted_query example_features (Some boundary_box))"
  by (auto simp: sindex_query_ok_def example_candidates unsorted_query_def sorted_query_def)

lemma example_distinct: "feature_a \<noteq> feature_b" "feature_a \<noteq> feature_c" "feature_b \<noteq> feature_c"
  by (simp_all add: feature_a_def feature_b_def feature_c_def)

theorem clip_subset_witness:
  "clip unsorted_query box_within example_features example_boundary = Inr [feature_b, feature_a] \<and>
   set [feature_b, feature_a] \<subseteq> set example_features \<and>
   bbox_intersects (box_bounds (geometry feature_a)) (box_bounds boundary_box) \<and>
   box_within (geometry feature_b) boundary_box"
proof -
  have "\<forall>i \<in> set (unsorted_query example_features (Some boundary_box)).
          0 \<le> i \<and> i < int (length example_features) \<and>
          bbox_intersects (box_bounds (geometry (example_features ! nat i))) (box_bounds boundary_box)"
    using query_ok_in_range [OF example_query_ok(1)] by blast
  from clip_subset [OF example_clip(1) example_bgeom(1) this] show ?thesis
    using example_clip(1) by simp
qed

theorem clip_tests_containment_witness:
  "feature_c \<in> set [feature_c, feature_b, feature_a] \<and>
   de9im_intersects box_pts (geometry feature_c) boundary_box \<and>
   \<not> box_pts (geometry feature_c) \<subseteq> box_pts boundary_box \<and>
   feature_c \<notin> set [feature_b, feature_a] \<and>
   feature_b \<in> set [feature_b, feature_a]"
proof -
  have c: "\<forall>c \<in> set [feature_c, feature_b, feature_a].
             box_within (geometry c) boundary_box = de9im_within box_pts box_inner (geometry c) boundary_box"
    by (simp add: box_within_de9im)
  have "(9, 9) \<in> box_pts (geometry feature_c) \<inter> box_pts boundary_box"
    by (simp add: box_pts_def feature_c_def boundary_box_def)
  then have i: "de9im_intersects box_pts (geometry feature_c) boundary_box"
    unfolding de9im_intersects_def by blast
  have "(12, 12) \<in> box_pts (geometry feature_c)" "(12, 12) \<notin> box_pts boundary_box"
    by (simp_all add: box_pts_def feature_c_def boundary_box_def)
  then have o: "\<not> box_pts (geometry feature_c) \<subseteq> box_pts boundary_box"
    by blast
  show ?thesis
    using clip_tests_containment [OF example_clip(1) example_bgeom(1) example_possible(1) c, of feature_c]
      clip_tests_containment [OF example_clip(1) example_bgeom(1) example_possible(1) c, of feature_b]
      i o
    by simp
qed

text \<open>
  A feature that lies in the boundary and shares a piece of its left edge: the point
  \<open>(0, 5)\<close> of the feature is on the edge of the boundary and not in its interior, so
  the feature touches the edge and is not strictly interior; it is within the
  boundary, and the clip keeps it.
\<close>

theorem touching_feature_counterexample:
  "(0, 5) \<in> box_pts (geometry feature_t) \<and>
   (0, 5) \<in> box_pts boundary_box \<and>
   (0, 5) \<notin> box_inner boundary_box \<and>
   de9im_within box_pts box_inner (geometry feature_t) boundary_box \<and>
   touching_features = [feature_t] \<and>
   clip single_query box_within touching_features example_boundary = Inr [feature_t]"
proof -
  have "(0, 5) \<in> box_pts (geometry feature_t)" "(0, 5) \<in> box_pts boundary_box"
    "(0, 5) \<notin> box_inner boundary_box"
    by (simp_all add: box_pts_def box_inner_def feature_t_def boundary_box_def)
  moreover have "de9im_within box_pts box_inner (geometry feature_t) boundary_box"
    using example_within(4) by (simp add: box_within_de9im)
  moreover have "touching_features = [feature_t]"
    by (simp add: touching_features_def)
  ultimately show ?thesis
    using example_clip(3) by blast
qed

text \<open>
  C4, as the code has it. The second pass keeps the order of the candidates of the
  first pass. The candidates come in the order of the positions the index query
  returns; when those are ascending, the clip keeps the order of the table.
\<close>

theorem clip_order:
  assumes "clip sindex_query geom_within features_gdf boundary_gdf = Inr result"
    and "boundary_geom boundary_gdf = Inr bgeom"
    and "clip_possible_gdf sindex_query features_gdf bgeom = Inr possible"
  shows "subseq result possible \<and>
         (sorted_wrt (<) (sindex_query features_gdf bgeom) \<and>
          (\<forall>i \<in> set (sindex_query features_gdf bgeom). 0 \<le> i) \<longrightarrow> subseq result features_gdf)"
proof -
  let ?positions = "sindex_query features_gdf bgeom"
  obtain b where b: "bgeom = Some b"
    using clip_Inr_boundary [OF assms(1) assms(2)] by blast
  have r: "result = filter (\<lambda>row. geom_within (geometry row) b) possible"
    using assms(1) clip_Some [of boundary_gdf b sindex_query features_gdf possible geom_within]
      assms(2) assms(3) by (simp add: b)
  have a: "subseq result possible"
    unfolding r by (rule subseq_filter_left)
  have c: "subseq result features_gdf"
    if s: "sorted_wrt (<) ?positions" and n: "\<forall>i \<in> set ?positions. 0 \<le> i"
  proof -
    have t: "iloc_take features_gdf ?positions = Inr possible"
      using assms(3) by (simp add: clip_possible_gdf_def)
    have rng: "\<forall>i \<in> set ?positions. i < int (length features_gdf)"
      and p: "possible = map (\<lambda>i. features_gdf ! nat i) ?positions"
      using iloc_take_nonneg [OF t n] by simp_all
    have "subseq possible features_gdf"
      unfolding p by (rule ascending_positions_subseq [OF s]) (use n rng in blast)
    with a show ?thesis
      by (rule subseq_order.trans)
  qed
  show ?thesis using a c by blast
qed

text \<open>
  An index that keeps its contract and returns the positions in descending order:
  the clip holds the second feature before the first, which is not their order in the
  table.
\<close>

theorem clip_order_counterexample:
  "sindex_query_ok box_bounds example_features boundary_box
     (unsorted_query example_features (Some boundary_box)) \<and>
   boundary_geom example_boundary = Inr (Some boundary_box) \<and>
   example_features = [feature_a, feature_b, feature_c] \<and>
   clip unsorted_query box_within example_features example_boundary = Inr [feature_b, feature_a] \<and>
   \<not> subseq [feature_b, feature_a] example_features"
proof -
  have "\<not> subseq [feature_b, feature_a] example_features"
    using example_distinct by (simp add: example_features_def)
  moreover have "example_features = [feature_a, feature_b, feature_c]"
    by (simp add: example_features_def)
  ultimately show ?thesis
    using example_query_ok(1) example_bgeom(1) example_clip(1) by blast
qed

theorem clip_order_witness:
  "clip sorted_query box_within example_features example_boundary = Inr [feature_a, feature_b] \<and>
   sorted_wrt (<) (sorted_query example_features (Some boundary_box)) \<and>
   subseq [feature_a, feature_b] [feature_a, feature_b, feature_c] \<and>
   subseq [feature_a, feature_b] example_features"
proof -
  have s: "sorted_wrt (<) (sorted_query example_features (Some boundary_box))"
    "\<forall>i \<in> set (sorted_query example_features (Some boundary_box)). 0 \<le> i"
    by (simp_all add: sorted_query_def)
  show ?thesis
    using clip_order [OF example_clip(2) example_bgeom(1) example_possible(2)] s example_clip(2)
    by simp
qed




end
